theory Spec2Isabelle
  imports Main "HOL-Library.Word"
begin

section \<open>Bytes, memory and spans\<close>

text \<open>
  The generator of \<^verbatim>\<open>AzIoTSasToken.cpp\<close> owns no storage: the device key, the signature
  buffer and the token buffer are spans (pointer and size) into caller-owned memory, and
  the token handed out by \<^verbatim>\<open>Get()\<close> is a span into the token buffer. Memory is a store
  from addresses to bytes; address 0 is the null pointer.
\<close>

type_synonym byte = "8 word"
type_synonym memory = "nat \<Rightarrow> byte"

record az_span =
  az_span_ptr :: nat
  az_span_size :: nat

definition AZ_SPAN_EMPTY :: az_span where
  "AZ_SPAN_EMPTY = \<lparr>az_span_ptr = 0, az_span_size = 0\<rparr>"

text \<open>
  \<^verbatim>\<open>az_span_slice(span, start, end)\<close> of the Azure SDK requires
  \<open>start \<le> end \<le> size\<close>; outside that range the SDK's precondition check does not
  return (or, with the checks compiled out, the slice reaches beyond the buffer). The model
  makes this outcome explicit as \<open>None\<close>.
\<close>

definition az_span_slice :: "az_span \<Rightarrow> nat \<Rightarrow> nat \<Rightarrow> az_span option" where
  "az_span_slice span start_index end_index =
     (if start_index \<le> end_index \<and> end_index \<le> az_span_size span
      then Some \<lparr>az_span_ptr = az_span_ptr span + start_index,
                 az_span_size = end_index - start_index\<rparr>
      else None)"

definition load :: "memory \<Rightarrow> az_span \<Rightarrow> byte list" where
  "load m s = map m [az_span_ptr s ..< az_span_ptr s + az_span_size s]"

definition store :: "memory \<Rightarrow> nat \<Rightarrow> byte list \<Rightarrow> memory" where
  "store m p bs = (\<lambda>a. if p \<le> a \<and> a < p + length bs then bs ! (a - p) else m a)"

section \<open>Result codes of the libraries\<close>

datatype az_result = AZ_OK | AZ_ERROR_NOT_ENOUGH_SPACE | AZ_ERROR nat

fun az_result_failed :: "az_result \<Rightarrow> bool" where
  "az_result_failed AZ_OK = False"
| "az_result_failed AZ_ERROR_NOT_ENOUGH_SPACE = True"
| "az_result_failed (AZ_ERROR code) = True"

definition MBEDTLS_ERR_BASE64_BUFFER_TOO_SMALL :: int where
  "MBEDTLS_ERR_BASE64_BUFFER_TOO_SMALL = - 42"

definition MBEDTLS_ERR_BASE64_INVALID_CHARACTER :: int where
  "MBEDTLS_ERR_BASE64_INVALID_CHARACTER = - 44"

section \<open>The collaborators\<close>

text \<open>
  The Azure SDK and mbedTLS are not part of the repository; the generator is verified for
  every behaviour of them that keeps to their interface. \<open>'c\<close> is the hub client
  (host name and device identifier), which only the SDK reads.

  \<^item> \<open>sas_get_signature client expiration capacity\<close>: the result of
    \<^verbatim>\<open>az_iot_hub_client_sas_get_signature\<close> and the bytes of the string-to-sign.
  \<^item> \<open>base64_decode_bytes\<close>, \<open>base64_encode_bytes\<close>: the codec of mbedTLS as a
    function on byte strings; decoding has no value on malformed input.
  \<^item> \<open>hmac_sha256 key message\<close>: the digest written by \<^verbatim>\<open>mbedtls_md_hmac_finish\<close>.
  \<^item> \<open>sas_get_password client expiration signature key_name capacity\<close>: the result of
    \<^verbatim>\<open>az_iot_hub_client_sas_get_password\<close>, the bytes it has written to the
    password buffer (also when it fails) and the length it reports.
\<close>

record 'c collaborators =
  sas_get_signature :: "'c \<Rightarrow> 64 word \<Rightarrow> nat \<Rightarrow> az_result \<times> byte list"
  base64_decode_bytes :: "byte list \<Rightarrow> byte list option"
  hmac_sha256 :: "byte list \<Rightarrow> byte list \<Rightarrow> byte list"
  base64_encode_bytes :: "byte list \<Rightarrow> byte list"
  sas_get_password ::
    "'c \<Rightarrow> 64 word \<Rightarrow> byte list \<Rightarrow> byte list \<Rightarrow> nat \<Rightarrow> az_result \<times> byte list \<times> nat"

text \<open>
  \<^verbatim>\<open>mbedtls_base64_decode(dst, dlen, &olen, src, slen)\<close>: an invalid character or a
  destination shorter than the decoded key is an error and writes nothing; otherwise the
  decoded bytes go to \<open>dst\<close> and their number to \<open>olen\<close>.
\<close>

definition mbedtls_base64_decode ::
  "'c collaborators \<Rightarrow> nat \<Rightarrow> byte list \<Rightarrow> int \<times> byte list" where
  "mbedtls_base64_decode X dlen src =
     (case base64_decode_bytes X src of
        None \<Rightarrow> (MBEDTLS_ERR_BASE64_INVALID_CHARACTER, [])
      | Some decoded \<Rightarrow>
          if dlen < length decoded then (MBEDTLS_ERR_BASE64_BUFFER_TOO_SMALL, [])
          else (0, decoded))"

text \<open>
  \<^verbatim>\<open>mbedtls_base64_encode(dst, dlen, &olen, src, slen)\<close> needs room for the encoded
  bytes and a terminating zero.
\<close>

definition mbedtls_base64_encode ::
  "'c collaborators \<Rightarrow> nat \<Rightarrow> byte list \<Rightarrow> int \<times> byte list" where
  "mbedtls_base64_encode X dlen src =
     (let encoded = base64_encode_bytes X src
      in if dlen < length encoded + 1 then (MBEDTLS_ERR_BASE64_BUFFER_TOO_SMALL, [])
         else (0, encoded))"

section \<open>The generator\<close>

text \<open>\<^verbatim>\<open>get_unix_time_now\<close>: the value of \<^verbatim>\<open>time(NULL)\<close> cast to \<^verbatim>\<open>uint32_t\<close>.\<close>

definition get_unix_time_now :: "int \<Rightarrow> 32 word" where
  "get_unix_time_now t = word_of_int t"

text \<open>
  \<^verbatim>\<open>hmac_sha256_sign(key, payload, out_signature32)\<close>: the key is read from memory when
  the HMAC starts, the digest is written to \<open>out_signature32\<close> when it finishes. The
  payload is the string-to-sign, which lives in a local buffer of \<^verbatim>\<open>Generate\<close>.
\<close>

definition hmac_sha256_sign ::
  "'c collaborators \<Rightarrow> az_span \<Rightarrow> byte list \<Rightarrow> az_span \<Rightarrow> memory \<Rightarrow> memory" where
  "hmac_sha256_sign X key payload out_signature32 m =
     store m (az_span_ptr out_signature32) (hmac_sha256 X (load m key) payload)"

text \<open>
  The static \<^verbatim>\<open>base64_encode(src, dest, &out)\<close> of the source; \<open>dest\<close> is a local
  buffer, given by its capacity, and \<open>out\<close> is returned as its bytes.
\<close>

definition base64_encode ::
  "'c collaborators \<Rightarrow> byte list \<Rightarrow> nat \<Rightarrow> az_result \<times> byte list" where
  "base64_encode X src dest =
     (let (rc, encoded) = mbedtls_base64_encode X dest src
      in if rc \<noteq> 0 then (AZ_ERROR_NOT_ENOUGH_SPACE, [])
         else (AZ_OK, encoded))"

text \<open>
  The object: the fields the constructor initialises, in the order of its initialiser
  list, together with the memory its spans point into. \<open>expirationUnixTime\<close> has the
  width of the cast \<^verbatim>\<open>(uint32_t)expiration\<close> that precedes every assignment to it, and
  of \<^verbatim>\<open>get_unix_time_now()\<close>, with which \<^verbatim>\<open>IsExpired\<close> compares it.
\<close>

record 'c AzIoTSasToken =
  client :: 'c
  deviceKey :: az_span
  signatureBuffer :: az_span
  sasTokenBuffer :: az_span
  sasToken :: az_span
  expirationUnixTime :: "32 word"
  memory :: memory

definition AzIoTSasToken_new ::
  "'c \<Rightarrow> az_span \<Rightarrow> az_span \<Rightarrow> az_span \<Rightarrow> memory \<Rightarrow> 'c AzIoTSasToken" where
  "AzIoTSasToken_new c key sigbuf tokbuf m =
     \<lparr>client = c, deviceKey = key, signatureBuffer = sigbuf, sasTokenBuffer = tokbuf,
      sasToken = AZ_SPAN_EMPTY, expirationUnixTime = 0, memory = m\<rparr>"

text \<open>
  Every \<^verbatim>\<open>return\<close> statement of \<^verbatim>\<open>Generate\<close> is recorded with the stage it ends;
  \<open>return_code\<close> is the integer that statement returns.
\<close>

datatype stage = Canonicalization | KeyDecode | SignatureEncode | Formatting

datatype generate_exit = Failed stage | Succeeded

fun return_code :: "generate_exit \<Rightarrow> int" where
  "return_code (Failed Canonicalization) = 1"
| "return_code (Failed KeyDecode) = 1"
| "return_code (Failed SignatureEncode) = 1"
| "return_code (Failed Formatting) = 1"
| "return_code Succeeded = 0"

text \<open>
  Steps 2) and 3) of \<^verbatim>\<open>Generate\<close>: decode the device key into the signature buffer,
  sign the string-to-sign into the first 32 bytes of the same buffer, and encode these 32
  bytes into a local buffer of 256 bytes. The result is the stage that returned 1, or the
  bytes of \<^verbatim>\<open>b64_sig\<close>. The lengths \<^verbatim>\<open>decoded_len\<close> and \<^verbatim>\<open>pwd_len\<close> are natural
  numbers; their casts to \<^verbatim>\<open>int\<close> do not change them, as they are bounded by the sizes
  of the buffers.
\<close>

definition Generate_signature ::
  "'c collaborators \<Rightarrow> byte list \<Rightarrow> 'c AzIoTSasToken
     \<Rightarrow> ((stage + byte list) \<times> 'c AzIoTSasToken) option" where
  "Generate_signature X to_sign s1 =
    (let (rc, decoded) = mbedtls_base64_decode X (az_span_size (signatureBuffer s1))
                           (load (memory s1) (deviceKey s1))
     in if rc \<noteq> 0 then Some (Inl KeyDecode, s1)
        else
          let s2 = s1\<lparr>memory :=
                     store (memory s1) (az_span_ptr (signatureBuffer s1)) decoded\<rparr>
          in case az_span_slice (signatureBuffer s2) 0 (length decoded) of
               None \<Rightarrow> None
             | Some decoded_key \<Rightarrow>
            (case az_span_slice (signatureBuffer s2) 0 32 of
               None \<Rightarrow> None
             | Some hmac_out \<Rightarrow>
            (let s3 = s2\<lparr>memory :=
                         hmac_sha256_sign X decoded_key to_sign hmac_out (memory s2)\<rparr>;
                 (res, out) = base64_encode X (load (memory s3) hmac_out) 256
             in if az_result_failed res then Some (Inl SignatureEncode, s3)
                else Some (Inr out, s3))))"

text \<open>
  \<^verbatim>\<open>Generate(expiryTimeInMinutes)\<close>, with \<open>now\<close> the value \<^verbatim>\<open>time(NULL)\<close> returns
  during the call. \<^verbatim>\<open>unsigned int\<close> has 32 bits on the target, so the product
  \<^verbatim>\<open>expiryTimeInMinutes * 60\<close> wraps before it is widened to 64 bits. The string-to-sign
  is built in a local buffer of 256 bytes. A call that does not return (a violated
  precondition of \<^verbatim>\<open>az_span_slice\<close>) is \<open>None\<close>.
\<close>

definition Generate_run ::
  "'c collaborators \<Rightarrow> int \<Rightarrow> 32 word \<Rightarrow> 'c AzIoTSasToken
     \<Rightarrow> (generate_exit \<times> 'c AzIoTSasToken) option" where
  "Generate_run X now expiryTimeInMinutes s =
    (let expiration = (ucast (get_unix_time_now now) :: 64 word)
                        + ucast (expiryTimeInMinutes * 60);
         s1 = s\<lparr>expirationUnixTime := ucast expiration\<rparr>;
         (res, out) = sas_get_signature X (client s1) expiration 256
     in if az_result_failed res then Some (Failed Canonicalization, s1)
        else
          let to_sign = out
          in case Generate_signature X to_sign s1 of
               None \<Rightarrow> None
             | Some (Inl failed_stage, s3) \<Rightarrow> Some (Failed failed_stage, s3)
             | Some (Inr b64_sig, s3) \<Rightarrow>
                 (let (res, written, pwd_len) =
                        sas_get_password X (client s3) expiration b64_sig []
                          (az_span_size (sasTokenBuffer s3));
                      s4 = s3\<lparr>memory :=
                             store (memory s3) (az_span_ptr (sasTokenBuffer s3)) written\<rparr>
                  in if az_result_failed res then Some (Failed Formatting, s4)
                     else
                       (case az_span_slice (sasTokenBuffer s4) 0 pwd_len of
                          None \<Rightarrow> None
                        | Some token \<Rightarrow> Some (Succeeded, s4\<lparr>sasToken := token\<rparr>))))"

abbreviation expiration64 :: "int \<Rightarrow> 32 word \<Rightarrow> 64 word" where
  "expiration64 now expiryTimeInMinutes \<equiv>
     ucast (get_unix_time_now now) + ucast (expiryTimeInMinutes * 60)"

definition Generate ::
  "'c collaborators \<Rightarrow> int \<Rightarrow> 32 word \<Rightarrow> 'c AzIoTSasToken \<Rightarrow> (int \<times> 'c AzIoTSasToken) option" where
  "Generate X now expiryTimeInMinutes s =
     map_option (\<lambda>(e, s'). (return_code e, s')) (Generate_run X now expiryTimeInMinutes s)"

definition IsExpired :: "int \<Rightarrow> 'c AzIoTSasToken \<Rightarrow> bool" where
  "IsExpired now s = (get_unix_time_now now \<ge> expirationUnixTime s)"

definition Get :: "'c AzIoTSasToken \<Rightarrow> az_span" where
  "Get s = sasToken s"

text \<open>
  Successive calls on one generator, each with the clock value it sees; the results of the
  calls in order. The sequence has no value when one of the calls does not return.
\<close>

fun Generate_calls ::
  "'c collaborators \<Rightarrow> (int \<times> 32 word) list \<Rightarrow> 'c AzIoTSasToken
     \<Rightarrow> (int \<times> 'c AzIoTSasToken) list option" where
  "Generate_calls X [] s = Some []"
| "Generate_calls X ((now, expiryTimeInMinutes) # calls) s =
     (case Generate X now expiryTimeInMinutes s of
        None \<Rightarrow> None
      | Some (rc, s') \<Rightarrow> map_option ((#) (rc, s')) (Generate_calls X calls s'))"

section \<open>A reference instance of the collaborators\<close>

text \<open>
  A concrete instance on which the theorems below are exercised: the hub client is the
  resource URI, Base64 follows RFC 4648, the string-to-sign is the URI, a line feed and
  the expiration in decimal, and the password has the layout of a shared access
  signature. \<open>keyed_digest\<close> stands in for HMAC-SHA256: it returns 32 bytes that depend
  on key and message, which is all the generator relies on.
\<close>

definition ascii :: "string \<Rightarrow> byte list" where
  "ascii cs = map (\<lambda>c. of_nat (of_char c)) cs"

definition decimal_places :: "nat \<Rightarrow> nat list" where
  "decimal_places n =
     map (\<lambda>i. n div 10 ^ i mod 10)
       [19, 18, 17, 16, 15, 14, 13, 12, 11, 10, 9, 8, 7, 6, 5, 4, 3, 2, 1, 0]"

definition decimal :: "64 word \<Rightarrow> byte list" where
  "decimal e =
     (let ds = dropWhile (\<lambda>d. d = 0) (decimal_places (unat e))
      in map (\<lambda>d. of_nat (48 + d)) (if ds = [] then [0] else ds))"

definition b64_char :: "nat \<Rightarrow> byte" where
  "b64_char n = of_nat (if n < 26 then n + 65 else if n < 52 then n + 71
                        else if n < 62 then n - 4 else if n = 62 then 43 else 47)"

fun rfc4648_encode :: "byte list \<Rightarrow> byte list" where
  "rfc4648_encode (a # b # c # rest) =
     (let n = unat a * 65536 + unat b * 256 + unat c
      in [b64_char (n div 262144), b64_char (n div 4096 mod 64),
          b64_char (n div 64 mod 64), b64_char (n mod 64)] @ rfc4648_encode rest)"
| "rfc4648_encode [a, b] =
     (let n = unat a * 65536 + unat b * 256
      in [b64_char (n div 262144), b64_char (n div 4096 mod 64),
          b64_char (n div 64 mod 64), 61])"
| "rfc4648_encode [a] =
     (let n = unat a * 65536
      in [b64_char (n div 262144), b64_char (n div 4096 mod 64), 61, 61])"
| "rfc4648_encode [] = []"

definition b64_value :: "byte \<Rightarrow> nat option" where
  "b64_value ch =
     (let v = unat ch
      in if 65 \<le> v \<and> v \<le> 90 then Some (v - 65)
         else if 97 \<le> v \<and> v \<le> 122 then Some (v - 71)
         else if 48 \<le> v \<and> v \<le> 57 then Some (v + 4)
         else if v = 43 then Some 62
         else if v = 47 then Some 63
         else None)"

fun rfc4648_decode :: "byte list \<Rightarrow> byte list option" where
  "rfc4648_decode [] = Some []"
| "rfc4648_decode (c1 # c2 # c3 # c4 # rest) =
     (case (b64_value c1, b64_value c2) of
        (Some v1, Some v2) \<Rightarrow>
          if rest = [] \<and> c3 = 61 \<and> c4 = 61 then Some [of_nat ((v1 * 64 + v2) div 16)]
          else (case b64_value c3 of
                  None \<Rightarrow> None
                | Some v3 \<Rightarrow>
                    if rest = [] \<and> c4 = 61
                    then Some [of_nat ((v1 * 4096 + v2 * 64 + v3) div 1024),
                               of_nat ((v1 * 4096 + v2 * 64 + v3) div 4 mod 256)]
                    else (case b64_value c4 of
                            None \<Rightarrow> None
                          | Some v4 \<Rightarrow>
                              (let n = v1 * 262144 + v2 * 4096 + v3 * 64 + v4
                               in map_option
                                    (\<lambda>tl. [of_nat (n div 65536), of_nat (n div 256 mod 256),
                                           of_nat (n mod 256)] @ tl)
                                    (rfc4648_decode rest))))
      | _ \<Rightarrow> None)"
| "rfc4648_decode _ = None"

definition keyed_digest :: "byte list \<Rightarrow> byte list \<Rightarrow> byte list" where
  "keyed_digest key msg =
     map (\<lambda>i. fold (\<lambda>b acc. 31 * acc + b + of_nat i) (key @ msg) 7) [0..<32]"

definition signature_payload ::
  "byte list \<Rightarrow> 64 word \<Rightarrow> nat \<Rightarrow> az_result \<times> byte list" where
  "signature_payload resource expiration capacity =
     (let text = resource @ [10] @ decimal expiration
      in if capacity < length text then (AZ_ERROR_NOT_ENOUGH_SPACE, [])
         else (AZ_OK, text))"

definition format_token ::
  "byte list \<Rightarrow> 64 word \<Rightarrow> byte list \<Rightarrow> byte list \<Rightarrow> nat
     \<Rightarrow> az_result \<times> byte list \<times> nat" where
  "format_token resource expiration signature key_name capacity =
     (let text = ascii ''SharedAccessSignature sr='' @ resource @ ascii ''&sig=''
                   @ signature @ ascii ''&se='' @ decimal expiration
      in if capacity < length text + 1
         then (AZ_ERROR_NOT_ENOUGH_SPACE, take capacity text, 0)
         else (AZ_OK, text @ [0], length text))"

definition reference_collaborators :: "byte list collaborators" where
  "reference_collaborators =
     \<lparr>sas_get_signature = signature_payload,
      base64_decode_bytes = rfc4648_decode,
      hmac_sha256 = keyed_digest,
      base64_encode_bytes = rfc4648_encode,
      sas_get_password = format_token\<rparr>"

text \<open>
  A device whose key is the Base64 text of the bytes 0 to 15, stored at address 100; the
  signature buffer has 64 bytes at address 200, the token buffer 200 bytes at address 300.
\<close>

definition device_key_text :: "byte list" where
  "device_key_text = ascii ''AAECAwQFBgcICQoLDA0ODw==''"

definition device1 :: "byte list AzIoTSasToken" where
  "device1 =
     AzIoTSasToken_new (ascii ''myhub.example.net/devices/device1'')
       \<lparr>az_span_ptr = 100, az_span_size = 24\<rparr>
       \<lparr>az_span_ptr = 200, az_span_size = 64\<rparr>
       \<lparr>az_span_ptr = 300, az_span_size = 200\<rparr>
       (store (\<lambda>a. 0) 100 device_key_text)"

text \<open>The caller overwrites the stored key with text that is not Base64.\<close>

definition corrupt_key :: "'c AzIoTSasToken \<Rightarrow> 'c AzIoTSasToken" where
  "corrupt_key s =
     s\<lparr>memory := store (memory s) (az_span_ptr (deviceKey s))
                     (replicate (az_span_size (deviceKey s)) 33)\<rparr>"

text \<open>The same device with a token buffer of 50 bytes.\<close>

definition small_token_buffer :: "'c AzIoTSasToken \<Rightarrow> 'c AzIoTSasToken" where
  "small_token_buffer s = s\<lparr>sasTokenBuffer := (sasTokenBuffer s)\<lparr>az_span_size := 50\<rparr>\<rparr>"

text \<open>
  The states of that device between calls: the configuration of \<open>device1\<close>, with the
  key text still in place.
\<close>

definition provisioned :: "byte list AzIoTSasToken \<Rightarrow> bool" where
  "provisioned s \<longleftrightarrow>
     client s = ascii ''myhub.example.net/devices/device1''
     \<and> deviceKey s = \<lparr>az_span_ptr = 100, az_span_size = 24\<rparr>
     \<and> signatureBuffer s = \<lparr>az_span_ptr = 200, az_span_size = 64\<rparr>
     \<and> load (memory s) \<lparr>az_span_ptr = 100, az_span_size = 24\<rparr> = device_key_text"

text \<open>
  A second generator for the same device: the key text at address 500, a signature buffer
  of 40 bytes at address 600 and a token buffer of 150 bytes at address 700, in memory
  that is not zeroed.
\<close>

definition device2 :: "byte list AzIoTSasToken" where
  "device2 =
     AzIoTSasToken_new (ascii ''myhub.example.net/devices/device1'')
       \<lparr>az_span_ptr = 500, az_span_size = 24\<rparr>
       \<lparr>az_span_ptr = 600, az_span_size = 40\<rparr>
       \<lparr>az_span_ptr = 700, az_span_size = 150\<rparr>
       (store (\<lambda>a. 255) 500 device_key_text)"

section \<open>Memory and arithmetic\<close>

lemma ucast_sum:
  "(ucast ((ucast (a::32 word) :: 64 word) + ucast (b::32 word)) :: 32 word) = a + b"
proof -
  have up: "uint (ucast a :: 64 word) = uint a" "uint (ucast b :: 64 word) = uint b"
    by (simp_all add: uint_up_ucast is_up)
  have down: "uint (ucast z :: 32 word) = uint z mod 2 ^ 32" for z :: "64 word"
    by (simp add: unsigned_ucast_eq take_bit_eq_mod)
  have "uint ((ucast a :: 64 word) + ucast b) = (uint a + uint b) mod 2 ^ 64"
    by (simp only: uint_word_ariths up) simp
  then have "uint (ucast ((ucast a :: 64 word) + ucast b) :: 32 word)
          = (uint a + uint b) mod 2 ^ 64 mod 2 ^ 32"
    by (simp only: down)
  also have "\<dots> = (uint a + uint b) mod 2 ^ 32"
    by (simp add: mod_mod_cancel)
  also have "\<dots> = uint (a + b)"
    by (simp add: uint_word_ariths)
  finally show ?thesis by (rule word_uint_eqI)
qed

lemma load_store_same:
  assumes "az_span_ptr sp = p" and "az_span_size sp = length bs"
  shows "load (store m p bs) sp = bs"
proof (rule nth_equalityI)
  show "length (load (store m p bs) sp) = length bs"
    using assms by (simp add: load_def)
next
  fix i
  assume "i < length (load (store m p bs) sp)"
  then have "i < length bs"
    using assms by (simp add: load_def)
  then show "load (store m p bs) sp ! i = bs ! i"
    using assms by (simp add: load_def store_def)
qed


lemma load_store_disjoint:
  "az_span_ptr sp + az_span_size sp \<le> p \<or> p + length bs \<le> az_span_ptr sp
     \<Longrightarrow> load (store m p bs) sp = load m sp"
proof -
  assume d: "az_span_ptr sp + az_span_size sp \<le> p \<or> p + length bs \<le> az_span_ptr sp"
  have "map (store m p bs) [az_span_ptr sp ..< az_span_ptr sp + az_span_size sp]
          = map m [az_span_ptr sp ..< az_span_ptr sp + az_span_size sp]"
  proof (rule map_cong[OF refl])
    fix a
    assume "a \<in> set [az_span_ptr sp ..< az_span_ptr sp + az_span_size sp]"
    then have "az_span_ptr sp \<le> a \<and> a < az_span_ptr sp + az_span_size sp"
      by simp
    with d show "store m p bs a = m a"
      by (auto simp: store_def)
  qed
  then show ?thesis
    by (simp add: load_def)
qed

section \<open>The stages of a call\<close>

lemma Generate_signature_invalid_key:
  "base64_decode_bytes X (load (memory s) (deviceKey s)) = None
     \<Longrightarrow> Generate_signature X to_sign s = Some (Inl KeyDecode, s)"
  by (simp add: Generate_signature_def mbedtls_base64_decode_def
        MBEDTLS_ERR_BASE64_INVALID_CHARACTER_def)

lemma Generate_signature_long_key:
  "base64_decode_bytes X (load (memory s) (deviceKey s)) = Some key
     \<Longrightarrow> az_span_size (signatureBuffer s) < length key
     \<Longrightarrow> Generate_signature X to_sign s = Some (Inl KeyDecode, s)"
  by (simp add: Generate_signature_def mbedtls_base64_decode_def
        MBEDTLS_ERR_BASE64_BUFFER_TOO_SMALL_def)

lemma Generate_signature_encoded:
  assumes "base64_decode_bytes X (load (memory s) (deviceKey s)) = Some key"
    and "length key \<le> az_span_size (signatureBuffer s)"
    and "32 \<le> az_span_size (signatureBuffer s)"
    and "length (hmac_sha256 X key to_sign) = 32"
    and "length (base64_encode_bytes X (hmac_sha256 X key to_sign)) < 256"
  shows "Generate_signature X to_sign s =
           Some (Inr (base64_encode_bytes X (hmac_sha256 X key to_sign)),
                 s\<lparr>memory := store (store (memory s) (az_span_ptr (signatureBuffer s)) key)
                                (az_span_ptr (signatureBuffer s))
                                (hmac_sha256 X key to_sign)\<rparr>)"
  using assms
  by (simp add: Generate_signature_def mbedtls_base64_decode_def az_span_slice_def
        hmac_sha256_sign_def load_store_same base64_encode_def mbedtls_base64_encode_def)



lemma Generate_signature_Inr:
  assumes "Generate_signature X to_sign s = Some (Inr sig, s')"
  shows "\<exists>key. base64_decode_bytes X (load (memory s) (deviceKey s)) = Some key
           \<and> length key \<le> az_span_size (signatureBuffer s)
           \<and> 32 \<le> az_span_size (signatureBuffer s)
           \<and> (length (hmac_sha256 X key to_sign) = 32 \<longrightarrow>
                sig = base64_encode_bytes X (hmac_sha256 X key to_sign))"
proof (cases "base64_decode_bytes X (load (memory s) (deviceKey s))")
  case None
  with assms show ?thesis
    by (simp add: Generate_signature_invalid_key)
next
  case (Some key)
  show ?thesis
  proof (cases "az_span_size (signatureBuffer s) < length key")
    case True
    with Some assms show ?thesis
      by (simp add: Generate_signature_long_key)
  next
    case False
    with Some assms show ?thesis
      by (auto simp: Generate_signature_def mbedtls_base64_decode_def az_span_slice_def
            hmac_sha256_sign_def load_store_same base64_encode_def mbedtls_base64_encode_def
            Let_def MBEDTLS_ERR_BASE64_BUFFER_TOO_SMALL_def
          split: if_splits)
  qed
qed

lemma Generate_signature_Inl:
  "Generate_signature X to_sign s = Some (Inl st, s') \<Longrightarrow> st = KeyDecode \<or> st = SignatureEncode"
  by (auto simp: Generate_signature_def Let_def split: option.splits if_splits prod.splits)

lemma Generate_signature_frame:
  "Generate_signature X to_sign s = Some (r, s') \<Longrightarrow>
     client s' = client s \<and> deviceKey s' = deviceKey s \<and> signatureBuffer s' = signatureBuffer s
     \<and> sasTokenBuffer s' = sasTokenBuffer s \<and> sasToken s' = sasToken s
     \<and> expirationUnixTime s' = expirationUnixTime s"
  by (auto simp: Generate_signature_def Let_def split: option.splits if_splits prod.splits)

lemma Generate_signature_KeyDecode_memory:
  "Generate_signature X to_sign s = Some (Inl KeyDecode, s') \<Longrightarrow> s' = s"
  by (auto simp: Generate_signature_def Let_def split: option.splits if_splits prod.splits)

lemma Generate_run_expiration:
  "Generate_run X now m s = Some (e, s') \<Longrightarrow>
     expirationUnixTime s' = get_unix_time_now now + m * 60"
  by (auto simp: Generate_run_def Let_def ucast_sum dest!: Generate_signature_frame
      split: prod.splits if_splits option.splits sum.splits)

lemma Generate_run_failed_token:
  "Generate_run X now m s = Some (Failed st, s') \<Longrightarrow> sasToken s' = sasToken s"
  by (auto simp: Generate_run_def Let_def dest!: Generate_signature_frame
      split: prod.splits if_splits option.splits sum.splits)

lemma Generate_run_frame:
  "Generate_run X now m s = Some (e, s') \<Longrightarrow>
     client s' = client s \<and> deviceKey s' = deviceKey s \<and> signatureBuffer s' = signatureBuffer s
     \<and> sasTokenBuffer s' = sasTokenBuffer s"
  by (auto simp: Generate_run_def Let_def dest!: Generate_signature_frame
      split: prod.splits if_splits option.splits sum.splits)

lemma Generate_run_early_memory:
  "Generate_run X now m s = Some (Failed st, s') \<Longrightarrow> st = Canonicalization \<or> st = KeyDecode
     \<Longrightarrow> memory s' = memory s"
  by (auto simp: Generate_run_def Let_def
      dest!: Generate_signature_KeyDecode_memory dest: Generate_signature_Inl
      split: prod.splits if_splits option.splits sum.splits)


lemma Generate_run_KeyDecode:
  assumes "sas_get_signature X (client s) (expiration64 now m) 256 = (res, out)"
    and "\<not> az_result_failed res"
    and "base64_decode_bytes X (load (memory s) (deviceKey s)) = None"
  shows "Generate_run X now m s =
           Some (Failed KeyDecode, s\<lparr>expirationUnixTime := get_unix_time_now now + m * 60\<rparr>)"
  using assms by (simp add: Generate_run_def ucast_sum Generate_signature_invalid_key)

lemma Generate_run_formatted:
  assumes "sas_get_signature X (client s) (expiration64 now m) 256 = (res, to_sign)"
    and "\<not> az_result_failed res"
    and "base64_decode_bytes X (load (memory s) (deviceKey s)) = Some key"
    and "length key \<le> az_span_size (signatureBuffer s)"
    and "32 \<le> az_span_size (signatureBuffer s)"
    and "hmac_sha256 X key to_sign = digest"
    and "length digest = 32"
    and "length (base64_encode_bytes X digest) < 256"
    and "sas_get_password X (client s) (expiration64 now m) (base64_encode_bytes X digest) []
           (az_span_size (sasTokenBuffer s)) = (res', written, pwd_len)"
  shows "Generate_run X now m s =
          (let s4 = s\<lparr>expirationUnixTime := get_unix_time_now now + m * 60,
                      memory := store (store (store (memory s)
                                   (az_span_ptr (signatureBuffer s)) key)
                                   (az_span_ptr (signatureBuffer s)) digest)
                                   (az_span_ptr (sasTokenBuffer s)) written\<rparr>
           in if az_result_failed res' then Some (Failed Formatting, s4)
              else if pwd_len \<le> az_span_size (sasTokenBuffer s)
                   then Some (Succeeded,
                          s4\<lparr>sasToken := \<lparr>az_span_ptr = az_span_ptr (sasTokenBuffer s),
                                           az_span_size = pwd_len\<rparr>\<rparr>)
                   else None)"
proof -
  let ?s1 = "s\<lparr>expirationUnixTime := get_unix_time_now now + m * 60\<rparr>"
  have sig: "Generate_signature X to_sign ?s1 =
               Some (Inr (base64_encode_bytes X digest),
                     ?s1\<lparr>memory := store (store (memory ?s1) (az_span_ptr (signatureBuffer ?s1)) key)
                                (az_span_ptr (signatureBuffer ?s1)) digest\<rparr>)"
    using assms(3-8) Generate_signature_encoded[of X ?s1 key to_sign] by simp
  show ?thesis
    using assms(1,2,9) sig
    by (simp add: Generate_run_def ucast_sum az_span_slice_def Let_def)
qed





section \<open>Runs of the reference instance\<close>

lemma reference_simps:
  "sas_get_signature reference_collaborators = signature_payload"
  "base64_decode_bytes reference_collaborators = rfc4648_decode"
  "hmac_sha256 reference_collaborators = keyed_digest"
  "base64_encode_bytes reference_collaborators = rfc4648_encode"
  "sas_get_password reference_collaborators = format_token"
  by (simp_all add: reference_collaborators_def)

lemma length_keyed_digest: "length (keyed_digest key msg) = 32"
  by (simp add: keyed_digest_def)

lemma length_rfc4648_encode: "length (rfc4648_encode bs) = 4 * ((length bs + 2) div 3)"
proof (induction bs rule: rfc4648_encode.induct)
  case (1 a b c rest)
  have "(length rest + 5) div 3 = Suc ((length rest + 2) div 3)"
    by arith
  with 1 show ?case
    by (simp add: Let_def add.commute)
qed (simp_all add: Let_def)

lemma length_decimal: "length (decimal e) \<le> 20"
proof -
  have "length (decimal_places (unat e)) = 20"
    by (simp add: decimal_places_def)
  then have "length (dropWhile (\<lambda>d. d = 0) (decimal_places (unat e))) \<le> 20"
    using length_dropWhile_le[of "\<lambda>d. d = 0" "decimal_places (unat e)"] by simp
  then show ?thesis
    by (simp add: decimal_def Let_def)
qed

lemma device1_fields:
  "client device1 = ascii ''myhub.example.net/devices/device1''"
  "deviceKey device1 = \<lparr>az_span_ptr = 100, az_span_size = 24\<rparr>"
  "signatureBuffer device1 = \<lparr>az_span_ptr = 200, az_span_size = 64\<rparr>"
  "sasTokenBuffer device1 = \<lparr>az_span_ptr = 300, az_span_size = 200\<rparr>"
  "sasToken device1 = AZ_SPAN_EMPTY"
  "expirationUnixTime device1 = 0"
  "memory device1 = store (\<lambda>a. 0) 100 device_key_text"
  by (simp_all add: device1_def AzIoTSasToken_new_def)

lemma length_device_key_text: "length device_key_text = 24"
  by (simp add: device_key_text_def ascii_def)

lemma decode_device_key_text:
  "rfc4648_decode device_key_text = Some [0, 1, 2, 3, 4, 5, 6, 7, 8, 9, 10, 11, 12, 13, 14, 15]"
  by (simp add: device_key_text_def ascii_def b64_value_def)

lemma decode_exclamation: "rfc4648_decode (33 # bs) = None"
  by (cases "33 # bs" rule: rfc4648_decode.cases) (simp_all add: b64_value_def)

lemma decode_corrupt: "0 < n \<Longrightarrow> rfc4648_decode (replicate n 33) = None"
  by (cases n) (simp_all add: decode_exclamation)
 
lemma length_resource: "length (ascii ''myhub.example.net/devices/device1'') = 33"
  by (simp add: ascii_def)

lemma signature_payload_device1:
  "signature_payload (ascii ''myhub.example.net/devices/device1'') e 256
     = (AZ_OK, ascii ''myhub.example.net/devices/device1'' @ [10] @ decimal e)"
  using length_decimal[of e] by (simp add: signature_payload_def length_resource)

lemma provisioned_device1: "provisioned device1"
  by (simp add: provisioned_def device1_fields load_store_same length_device_key_text)

lemma format_token_fits:
  assumes "length sig = 44"
  shows "format_token (ascii ''myhub.example.net/devices/device1'') e sig [] 200
           = (AZ_OK,
              ascii ''SharedAccessSignature sr='' @ ascii ''myhub.example.net/devices/device1''
                @ ascii ''&sig='' @ sig @ ascii ''&se='' @ decimal e @ [0],
              111 + length (decimal e))"
  using assms length_decimal[of e]
  by (simp add: format_token_def Let_def length_resource) (simp add: ascii_def)

lemma format_token_short:
  assumes "length sig = 44"
  shows "format_token (ascii ''myhub.example.net/devices/device1'') e sig [] 50
           = (AZ_ERROR_NOT_ENOUGH_SPACE,
              ascii ''SharedAccessSignature sr='' @ take 25 (ascii ''myhub.example.net/devices/device1''), 0)"
  using assms
  by (simp add: format_token_def Let_def length_resource) (simp add: ascii_def)

lemma provisioned_signature:
  assumes "provisioned s"
  shows "base64_decode_bytes reference_collaborators (load (memory s) (deviceKey s))
           = Some [0, 1, 2, 3, 4, 5, 6, 7, 8, 9, 10, 11, 12, 13, 14, 15]"
    and "sas_get_signature reference_collaborators (client s) e 256
           = (AZ_OK, client s @ [10] @ decimal e)"
    and "32 \<le> az_span_size (signatureBuffer s)"
    and "az_span_ptr (signatureBuffer s) = 200"
  using assms
  by (simp_all add: provisioned_def reference_simps decode_device_key_text device1_fields
        signature_payload_device1)

lemma provisioned_Generate_run:
  assumes "provisioned s" and "sasTokenBuffer s = \<lparr>az_span_ptr = 300, az_span_size = 200\<rparr>"
  shows "\<exists>s'. Generate_run reference_collaborators now m s = Some (Succeeded, s')
               \<and> provisioned s' \<and> sasTokenBuffer s' = sasTokenBuffer s
               \<and> sasToken s' = \<lparr>az_span_ptr = 300,
                                  az_span_size = 111 + length (decimal (expiration64 now m))\<rparr>"
proof -
  let ?key = "[0, 1, 2, 3, 4, 5, 6, 7, 8, 9, 10, 11, 12, 13, 14, 15] :: byte list"
  let ?to_sign = "client s @ [10] @ decimal (expiration64 now m)"
  let ?digest = "keyed_digest ?key ?to_sign"
  let ?sig = "rfc4648_encode ?digest"
  have len: "length ?sig = 44"
    by (simp add: length_rfc4648_encode length_keyed_digest)
  have cl: "client s = ascii ''myhub.example.net/devices/device1''"
    using assms(1) by (simp add: provisioned_def device1_fields)
  note fmt = format_token_fits[OF len, of "expiration64 now m"]
  have run: "Generate_run reference_collaborators now m s =
          (let s4 = s\<lparr>expirationUnixTime := get_unix_time_now now + m * 60,
                      memory := store (store (store (memory s)
                                   (az_span_ptr (signatureBuffer s)) ?key)
                                   (az_span_ptr (signatureBuffer s)) ?digest)
                                   (az_span_ptr (sasTokenBuffer s))
                                   (ascii ''SharedAccessSignature sr='' @ ascii ''myhub.example.net/devices/device1''
                @ ascii ''&sig='' @ ?sig @ ascii ''&se='' @ decimal (expiration64 now m) @ [0])\<rparr>
           in if az_result_failed AZ_OK then Some (Failed Formatting, s4)
              else if 111 + length (decimal (expiration64 now m)) \<le> az_span_size (sasTokenBuffer s)
                   then Some (Succeeded,
                          s4\<lparr>sasToken := \<lparr>az_span_ptr = az_span_ptr (sasTokenBuffer s),
                                           az_span_size = 111 + length (decimal (expiration64 now m))\<rparr>\<rparr>)
                   else None)"
  proof (rule Generate_run_formatted)
    show "sas_get_signature reference_collaborators (client s) (expiration64 now m) 256
            = (AZ_OK, ?to_sign)"
      by (rule provisioned_signature(2)[OF assms(1)])
    show "\<not> az_result_failed AZ_OK" by simp
    show "base64_decode_bytes reference_collaborators (load (memory s) (deviceKey s)) = Some ?key"
      by (rule provisioned_signature(1)[OF assms(1)])
    show "length ?key \<le> az_span_size (signatureBuffer s)"
      using assms(1) by (simp add: provisioned_def device1_fields)
    show "32 \<le> az_span_size (signatureBuffer s)"
      by (rule provisioned_signature(3)[OF assms(1)])
    show "hmac_sha256 reference_collaborators ?key ?to_sign = ?digest"
      by (simp add: reference_simps)
    show "length ?digest = 32"
      by (rule length_keyed_digest)
    show "length (base64_encode_bytes reference_collaborators ?digest) < 256"
      using len by (simp add: reference_simps)
    show "sas_get_password reference_collaborators (client s) (expiration64 now m)
             (base64_encode_bytes reference_collaborators ?digest) []
             (az_span_size (sasTokenBuffer s))
          = (AZ_OK, ascii ''SharedAccessSignature sr='' @ ascii ''myhub.example.net/devices/device1''
                @ ascii ''&sig='' @ ?sig @ ascii ''&se='' @ decimal (expiration64 now m) @ [0],
             111 + length (decimal (expiration64 now m)))"
      using fmt by (simp add: reference_simps cl assms(2))
  qed
  have keep: "load (store (store (store (memory s) 200 ?key) 200 ?digest) 300 w)
                \<lparr>az_span_ptr = 100, az_span_size = 24\<rparr>
              = load (memory s) \<lparr>az_span_ptr = 100, az_span_size = 24\<rparr>" for w
    by (simp add: load_store_disjoint length_keyed_digest)
  show ?thesis
    using assms length_decimal[of "expiration64 now m"] keep
    by (simp add: run Let_def provisioned_def device1_fields)
qed

section \<open>Results of a call\<close>

lemma Generate_Some:
  "Generate X now m s = Some (rc, s') \<longleftrightarrow>
     (\<exists>e. Generate_run X now m s = Some (e, s') \<and> rc = return_code e)"
  by (auto simp: Generate_def)

lemma return_code_cases: "return_code e = 0 \<and> e = Succeeded \<or> return_code e = 1 \<and> (\<exists>st. e = Failed st)"
  by (cases e rule: return_code.cases) simp_all

lemma Generate_expiration:
  "Generate X now m s = Some (rc, s') \<Longrightarrow> expirationUnixTime s' = get_unix_time_now now + m * 60"
  by (auto simp: Generate_Some dest: Generate_run_expiration)

lemma return_code_Failed: "return_code (Failed st) = 1"
  by (cases st) simp_all

lemma Generate_run_Canonicalization_state:
  "Generate_run X now m s = Some (Failed Canonicalization, s') \<Longrightarrow>
     s' = s\<lparr>expirationUnixTime := ucast (expiration64 now m)\<rparr>"
  by (auto simp: Generate_run_def Let_def dest: Generate_signature_Inl
      split: prod.splits if_splits option.splits sum.splits)

lemma Generate_run_Succeeded:
  assumes "Generate_run X now m s = Some (Succeeded, s')"
  shows "\<exists>res1 to_sign sig s3 res4 written pwd_len.
           sas_get_signature X (client s) (expiration64 now m) 256 = (res1, to_sign)
           \<and> \<not> az_result_failed res1
           \<and> Generate_signature X to_sign (s\<lparr>expirationUnixTime := ucast (expiration64 now m)\<rparr>)
               = Some (Inr sig, s3)
           \<and> sas_get_password X (client s) (expiration64 now m) sig []
               (az_span_size (sasTokenBuffer s)) = (res4, written, pwd_len)
           \<and> \<not> az_result_failed res4
           \<and> pwd_len \<le> az_span_size (sasTokenBuffer s)
           \<and> sasToken s' = \<lparr>az_span_ptr = az_span_ptr (sasTokenBuffer s), az_span_size = pwd_len\<rparr>"
proof -
  obtain res1 to_sign
    where c: "sas_get_signature X (client s) (expiration64 now m) 256 = (res1, to_sign)"
    by (cases "sas_get_signature X (client s) (expiration64 now m) 256")
  let ?s1 = "s\<lparr>expirationUnixTime := ucast (expiration64 now m)\<rparr>"
  from assms c have ok1: "\<not> az_result_failed res1"
    by (auto simp: Generate_run_def Let_def)
  with assms c obtain sig s3 where g: "Generate_signature X to_sign ?s1 = Some (Inr sig, s3)"
    by (auto simp: Generate_run_def Let_def split: option.splits sum.splits prod.splits if_splits)
  from Generate_signature_frame[OF g]
  have fr: "client s3 = client s" "sasTokenBuffer s3 = sasTokenBuffer s"
    by simp_all
  obtain res4 written pwd_len
    where f: "sas_get_password X (client s) (expiration64 now m) sig []
                (az_span_size (sasTokenBuffer s)) = (res4, written, pwd_len)"
    by (cases "sas_get_password X (client s) (expiration64 now m) sig []
                (az_span_size (sasTokenBuffer s))")
  from assms c ok1 g f fr
  have "\<not> az_result_failed res4 \<and> pwd_len \<le> az_span_size (sasTokenBuffer s)
        \<and> sasToken s' = \<lparr>az_span_ptr = az_span_ptr (sasTokenBuffer s), az_span_size = pwd_len\<rparr>"
    by (auto simp: Generate_run_def Let_def az_span_slice_def split: if_splits)
  with c ok1 g f show ?thesis
    by blast
qed

lemma Generate_success_token:
  assumes "Generate X now m s = Some (0, s')"
  shows "\<exists>sig res written pwd_len.
           sas_get_password X (client s) (expiration64 now m) sig []
             (az_span_size (sasTokenBuffer s)) = (res, written, pwd_len)
           \<and> \<not> az_result_failed res
           \<and> sasToken s' = \<lparr>az_span_ptr = az_span_ptr (sasTokenBuffer s), az_span_size = pwd_len\<rparr>
           \<and> pwd_len \<le> az_span_size (sasTokenBuffer s)"
proof -
  from assms obtain e where run: "Generate_run X now m s = Some (e, s')" and "return_code e = 0"
    by (auto simp: Generate_Some)
  then have e: "e = Succeeded"
    using return_code_cases[of e] by auto
  from Generate_run_Succeeded[OF run[unfolded e]] show ?thesis
    by blast
qed

section \<open>The expiration epoch as a number\<close>

lemma uint_epoch:
  "uint (get_unix_time_now now + m * 60) = (uint (get_unix_time_now now) + uint m * 60) mod 2 ^ 32"
  by (simp add: uint_word_ariths mod_simps)

lemma epoch_word_of_int:
  "get_unix_time_now now + m * 60 = word_of_int (now + uint m * 60)"
  by (simp add: get_unix_time_now_def)

lemma word_pred_less: "(x :: 32 word) \<noteq> 0 \<Longrightarrow> x - 1 < x"
  by (simp add: word_less_nat_alt unat_minus_one unat_gt_0)


lemma boundary:
  assumes "expirationUnixTime s' = get_unix_time_now now0 + L * 60"
  shows "IsExpired (now0 + uint L * 60) s'"
    and "(now0 + uint L * 60) mod 2 ^ 32 \<noteq> 0 \<Longrightarrow> \<not> IsExpired (now0 + uint L * 60 - 1) s'"
proof -
  let ?T = "now0 + uint L * 60"
  have E: "expirationUnixTime s' = word_of_int ?T"
    using assms by (simp add: epoch_word_of_int)
  show "IsExpired ?T s'"
    by (simp add: IsExpired_def E get_unix_time_now_def)
  assume nz: "?T mod 2 ^ 32 \<noteq> 0"
  have "uint (word_of_int ?T :: 32 word) \<noteq> 0"
    using nz unfolding uint_word_of_int by simp
  then have "(word_of_int ?T :: 32 word) \<noteq> 0"
    by auto
  then have "(word_of_int ?T :: 32 word) - 1 < word_of_int ?T"
    by (rule word_pred_less)
  moreover have "get_unix_time_now (?T - 1) = word_of_int ?T - 1"
    by (simp add: get_unix_time_now_def)
  ultimately show "\<not> IsExpired (?T - 1) s'"
    by (simp add: IsExpired_def E not_le)
qed

lemma fresh_epoch:
  assumes "0 < m" and "uint (get_unix_time_now now) + uint m * 60 < 2 ^ 32"
  shows "get_unix_time_now now < get_unix_time_now now + m * 60"
proof -
  have "0 < uint m"
    using assms(1) by (simp add: word_less_def)
  then have "uint (get_unix_time_now now) < uint (get_unix_time_now now) + uint m * 60"
    by simp
  also have "\<dots> = uint (get_unix_time_now now + m * 60)"
    using assms(2) by (simp add: uint_epoch)
  finally show ?thesis
    by (simp add: word_less_def)
qed

lemma epoch_no_wrap:
  assumes "0 \<le> now" and "now + uint m * 60 < 2 ^ 32"
  shows "uint (get_unix_time_now now + m * 60) = now + uint m * 60"
proof -
  have "0 \<le> now + uint m * 60"
    using assms(1) by simp
  then show ?thesis
    using assms(2) by (simp only: epoch_word_of_int uint_word_of_int) simp
qed

lemma Generate_calls_expirations:
  "Generate_calls X calls s = Some results \<Longrightarrow>
     map (\<lambda>(rc, s'). expirationUnixTime s') results
       = map (\<lambda>(now, m). get_unix_time_now now + m * 60) calls"
proof (induction calls arbitrary: s results)
  case Nil
  then show ?case by simp
next
  case (Cons call calls)
  obtain now m where call: "call = (now, m)"
    by (cases call)
  from Cons.prems obtain rc s' rest
    where run: "Generate X now m s = Some (rc, s')"
      and rest: "Generate_calls X calls s' = Some rest"
      and results: "results = (rc, s') # rest"
    by (auto simp: call split: option.splits)
  from Cons.IH[OF rest] Generate_expiration[OF run] show ?case
    by (simp add: results call)
qed

section \<open>Calls on the reference device\<close>

lemma provisioned_Generate:
  assumes "provisioned s" and "sasTokenBuffer s = \<lparr>az_span_ptr = 300, az_span_size = 200\<rparr>"
  shows "\<exists>s'. Generate reference_collaborators now m s = Some (0, s')
               \<and> expirationUnixTime s' = get_unix_time_now now + m * 60
               \<and> provisioned s'
               \<and> sasTokenBuffer s' = \<lparr>az_span_ptr = 300, az_span_size = 200\<rparr>
               \<and> sasToken s' = \<lparr>az_span_ptr = 300,
                                  az_span_size = 111 + length (decimal (expiration64 now m))\<rparr>"
proof -
  from provisioned_Generate_run[OF assms, of now m] obtain s'
    where run: "Generate_run reference_collaborators now m s = Some (Succeeded, s')"
      and rest: "provisioned s'" "sasTokenBuffer s' = sasTokenBuffer s"
        "sasToken s' = \<lparr>az_span_ptr = 300,
                          az_span_size = 111 + length (decimal (expiration64 now m))\<rparr>"
    by blast
  from run have "Generate reference_collaborators now m s = Some (0, s')"
    by (simp add: Generate_def)
  with rest assms(2) Generate_run_expiration[OF run] show ?thesis
    by auto
qed

lemmas device1_Generate =
  provisioned_Generate[OF provisioned_device1 device1_fields(4)]

lemma corrupt_key_run:
  assumes "provisioned s"
  shows "Generate_run reference_collaborators now m (corrupt_key s) =
           Some (Failed KeyDecode,
                 (corrupt_key s)\<lparr>expirationUnixTime := get_unix_time_now now + m * 60\<rparr>)"
proof (rule Generate_run_KeyDecode)
  have cl: "client (corrupt_key s) = ascii ''myhub.example.net/devices/device1''"
    using assms by (simp add: corrupt_key_def provisioned_def)
  show "sas_get_signature reference_collaborators (client (corrupt_key s)) (expiration64 now m) 256
          = (AZ_OK, client (corrupt_key s) @ [10] @ decimal (expiration64 now m))"
    by (simp add: cl reference_simps signature_payload_device1)
  show "\<not> az_result_failed AZ_OK"
    by simp
  have "load (memory (corrupt_key s)) (deviceKey (corrupt_key s)) = replicate 24 33"
    using assms by (simp add: corrupt_key_def provisioned_def load_store_same)
  then show "base64_decode_bytes reference_collaborators
               (load (memory (corrupt_key s)) (deviceKey (corrupt_key s))) = None"
    by (simp add: reference_simps decode_corrupt)
qed



lemma corrupt_key_Generate:
  assumes "provisioned s"
  shows "Generate reference_collaborators now m (corrupt_key s) =
           Some (1, (corrupt_key s)\<lparr>expirationUnixTime := get_unix_time_now now + m * 60\<rparr>)"
  by (simp add: Generate_def corrupt_key_run[OF assms])

lemma small_token_buffer_run:
  assumes "provisioned s" and "sasTokenBuffer s = \<lparr>az_span_ptr = 300, az_span_size = 200\<rparr>"
  shows "\<exists>s'. Generate_run reference_collaborators now m (small_token_buffer s)
                 = Some (Failed Formatting, s')
               \<and> sasToken s' = sasToken s
               \<and> memory s' 300 = 83"
proof -
  let ?s = "small_token_buffer s"
  let ?key = "[0, 1, 2, 3, 4, 5, 6, 7, 8, 9, 10, 11, 12, 13, 14, 15] :: byte list"
  let ?to_sign = "client ?s @ [10] @ decimal (expiration64 now m)"
  let ?digest = "keyed_digest ?key ?to_sign"
  let ?sig = "rfc4648_encode ?digest"
  let ?written = "ascii ''SharedAccessSignature sr=''
                    @ take 25 (ascii ''myhub.example.net/devices/device1'')"
  have p: "provisioned ?s"
    using assms(1) by (simp add: provisioned_def small_token_buffer_def)
  have buf: "sasTokenBuffer ?s = \<lparr>az_span_ptr = 300, az_span_size = 50\<rparr>"
    using assms(2) by (simp add: small_token_buffer_def)
  have cl: "client ?s = ascii ''myhub.example.net/devices/device1''"
    using p by (simp add: provisioned_def)
  have len: "length ?sig = 44"
    by (simp add: length_rfc4648_encode length_keyed_digest)
  have run: "Generate_run reference_collaborators now m ?s =
          (let s4 = ?s\<lparr>expirationUnixTime := get_unix_time_now now + m * 60,
                      memory := store (store (store (memory ?s)
                                   (az_span_ptr (signatureBuffer ?s)) ?key)
                                   (az_span_ptr (signatureBuffer ?s)) ?digest)
                                   (az_span_ptr (sasTokenBuffer ?s)) ?written\<rparr>
           in if az_result_failed AZ_ERROR_NOT_ENOUGH_SPACE then Some (Failed Formatting, s4)
              else if 0 \<le> az_span_size (sasTokenBuffer ?s)
                   then Some (Succeeded,
                          s4\<lparr>sasToken := \<lparr>az_span_ptr = az_span_ptr (sasTokenBuffer ?s),
                                           az_span_size = 0\<rparr>\<rparr>)
                   else None)"
  proof (rule Generate_run_formatted)
    show "sas_get_signature reference_collaborators (client ?s) (expiration64 now m) 256
            = (AZ_OK, ?to_sign)"
      by (rule provisioned_signature(2)[OF p])
    show "\<not> az_result_failed AZ_OK" by simp
    show "base64_decode_bytes reference_collaborators (load (memory ?s) (deviceKey ?s)) = Some ?key"
      by (rule provisioned_signature(1)[OF p])
    show "length ?key \<le> az_span_size (signatureBuffer ?s)"
      using p by (simp add: provisioned_def)
    show "32 \<le> az_span_size (signatureBuffer ?s)"
      by (rule provisioned_signature(3)[OF p])
    show "hmac_sha256 reference_collaborators ?key ?to_sign = ?digest"
      by (simp add: reference_simps)
    show "length ?digest = 32"
      by (rule length_keyed_digest)
    show "length (base64_encode_bytes reference_collaborators ?digest) < 256"
      using len by (simp add: reference_simps)
    show "sas_get_password reference_collaborators (client ?s) (expiration64 now m)
             (base64_encode_bytes reference_collaborators ?digest) []
             (az_span_size (sasTokenBuffer ?s))
          = (AZ_ERROR_NOT_ENOUGH_SPACE, ?written, 0)"
      using format_token_short[OF len, of "expiration64 now m"]
      by (simp add: reference_simps cl buf)
  qed
  have "store M 300 ?written 300 = 83" for M
    by (simp add: store_def ascii_def)
  then show ?thesis
    by (simp add: run Let_def buf) (simp add: small_token_buffer_def)
qed

lemma format_token_positive:
  "format_token c e sig key_name capacity = (res, written, pwd_len) \<Longrightarrow>
     \<not> az_result_failed res \<Longrightarrow> 0 < pwd_len"
  by (auto simp: format_token_def Let_def ascii_def split: if_splits)

lemma device_signature:
  assumes "load (memory s) (deviceKey s) = device_key_text"
    and "32 \<le> az_span_size (signatureBuffer s)"
  shows "map_option fst (Generate_signature reference_collaborators to_sign s) =
           Some (Inr (rfc4648_encode (keyed_digest
             [0, 1, 2, 3, 4, 5, 6, 7, 8, 9, 10, 11, 12, 13, 14, 15] to_sign)))"
proof -
  let ?key = "[0, 1, 2, 3, 4, 5, 6, 7, 8, 9, 10, 11, 12, 13, 14, 15] :: byte list"
  have "Generate_signature reference_collaborators to_sign s =
           Some (Inr (base64_encode_bytes reference_collaborators
                        (hmac_sha256 reference_collaborators ?key to_sign)),
                 s\<lparr>memory := store (store (memory s) (az_span_ptr (signatureBuffer s)) ?key)
                                (az_span_ptr (signatureBuffer s))
                                (hmac_sha256 reference_collaborators ?key to_sign)\<rparr>)"
    using assms
    by (intro Generate_signature_encoded)
       (simp_all add: reference_simps decode_device_key_text length_keyed_digest
          length_rfc4648_encode)
  then show ?thesis
    by (simp add: reference_simps)
qed

lemma device1_two_calls:
  "\<exists>s1 s2. Generate_calls reference_collaborators [(t1, m1), (t2, m2)] device1
              = Some [(0, s1), (0, s2)]
           \<and> expirationUnixTime s1 = get_unix_time_now t1 + m1 * 60
           \<and> expirationUnixTime s2 = get_unix_time_now t2 + m2 * 60"
proof -
  from device1_Generate[of t1 m1] obtain s1
    where r1: "Generate reference_collaborators t1 m1 device1 = Some (0, s1)"
      and e1: "expirationUnixTime s1 = get_unix_time_now t1 + m1 * 60"
      and p1: "provisioned s1" "sasTokenBuffer s1 = \<lparr>az_span_ptr = 300, az_span_size = 200\<rparr>"
    by blast
  from provisioned_Generate[OF p1, of t2 m2] obtain s2
    where r2: "Generate reference_collaborators t2 m2 s1 = Some (0, s2)"
      and e2: "expirationUnixTime s2 = get_unix_time_now t2 + m2 * 60"
    by blast
  from r1 r2 e1 e2 show ?thesis
    by simp
qed

section \<open>Expiry of a fresh generator\<close>

text \<open>
  C7. Amended: a freshly constructed generator, on which \<open>Generate\<close> has not been
  called, reports expired at every clock value: its expiration epoch is 0, the least
  32-bit value. A generator on which \<open>Generate\<close> has only failed holds the epoch of the
  last failed call, and need not report expired.
\<close>

theorem fresh_generator_is_expired:
  "IsExpired now (AzIoTSasToken_new c key sigbuf tokbuf m)
   \<and> expirationUnixTime (AzIoTSasToken_new c key sigbuf tokbuf m) = 0"
  by (simp add: IsExpired_def AzIoTSasToken_new_def)

text \<open>
  The claim as stated, for every generator on which no call has succeeded, fails: on a
  newly constructed generator whose key text is not Base64 the first call returns 1,
  the token view is still empty, and \<open>IsExpired\<close> at the same clock value is false.
\<close>

theorem never_succeeded_is_expired_counterexample:
  "map_option (\<lambda>(rc, s'). (rc, Get s', IsExpired 1700000000 s'))
     (Generate reference_collaborators 1700000000 60 (corrupt_key device1))
     = Some (1, AZ_SPAN_EMPTY, False)
   \<and> corrupt_key device1 =
       AzIoTSasToken_new (ascii ''myhub.example.net/devices/device1'')
         \<lparr>az_span_ptr = 100, az_span_size = 24\<rparr>
         \<lparr>az_span_ptr = 200, az_span_size = 64\<rparr>
         \<lparr>az_span_ptr = 300, az_span_size = 200\<rparr>
         (store (store (\<lambda>a. 0) 100 device_key_text) 100 (replicate 24 33))"
proof -
  let ?s' = "(corrupt_key device1)\<lparr>expirationUnixTime := get_unix_time_now 1700000000 + 60 * 60\<rparr>"
  have run: "Generate reference_collaborators 1700000000 60 (corrupt_key device1) = Some (1, ?s')"
    by (rule corrupt_key_Generate[OF provisioned_device1])
  have "Get ?s' = AZ_SPAN_EMPTY"
    by (simp add: Get_def corrupt_key_def device1_fields)
  moreover have "\<not> IsExpired 1700000000 ?s'"
    by (simp add: IsExpired_def get_unix_time_now_def)
  ultimately have a: "map_option (\<lambda>(rc, s'). (rc, Get s', IsExpired 1700000000 s'))
     (Generate reference_collaborators 1700000000 60 (corrupt_key device1))
     = Some (1, AZ_SPAN_EMPTY, False)"
    by (simp add: run)
  have b: "corrupt_key device1 =
       AzIoTSasToken_new (ascii ''myhub.example.net/devices/device1'')
         \<lparr>az_span_ptr = 100, az_span_size = 24\<rparr>
         \<lparr>az_span_ptr = 200, az_span_size = 64\<rparr>
         \<lparr>az_span_ptr = 300, az_span_size = 200\<rparr>
         (store (store (\<lambda>a. 0) 100 device_key_text) 100 (replicate 24 33))"
    by (simp add: corrupt_key_def device1_def AzIoTSasToken_new_def)
  from a b show ?thesis
    by (rule conjI)
qed

section \<open>When the expiration epoch is stored\<close>

text \<open>
  C3. The expiration epoch is computed and stored first: whatever statement a call
  of \<open>Generate\<close> returns from, the field holds the 64-bit expiration of this call cast to
  32 bits, so a call that fails has still replaced the stored value. A call that fails in
  the first stage has changed nothing else.
\<close>

theorem expiration_stored_on_every_exit:
  "Generate_run X now m s = Some (e, s') \<Longrightarrow>
     expirationUnixTime s' = ucast (expiration64 now m)
     \<and> (e = Failed Canonicalization \<longrightarrow>
          s' = s\<lparr>expirationUnixTime := ucast (expiration64 now m)\<rparr>)"
  by (auto simp: ucast_sum dest: Generate_run_expiration Generate_run_Canonicalization_state)

text \<open>
  On a generator whose key has been overwritten, the call fails while decoding the
  key, and the epoch has moved from 0 to 1700003600.
\<close>

theorem expiration_stored_on_every_exit_witness:
  "map_option (\<lambda>(e, s'). (e, expirationUnixTime s'))
     (Generate_run reference_collaborators 1700000000 60 (corrupt_key device1))
     = Some (Failed KeyDecode, 1700003600)
   \<and> expirationUnixTime (corrupt_key device1) = 0"
proof -
  let ?s' = "(corrupt_key device1)\<lparr>expirationUnixTime := get_unix_time_now 1700000000 + 60 * 60\<rparr>"
  have run: "Generate_run reference_collaborators 1700000000 60 (corrupt_key device1)
               = Some (Failed KeyDecode, ?s')"
    by (rule corrupt_key_run[OF provisioned_device1])
  from expiration_stored_on_every_exit[OF run]
  have "expirationUnixTime ?s' = ucast (expiration64 1700000000 60)"
    by simp
  also have "\<dots> = 1700003600"
    by (simp add: get_unix_time_now_def)
  finally show ?thesis
    using run by (simp add: corrupt_key_def device1_fields)
qed

section \<open>The value of the stored epoch\<close>

text \<open>
  C5. Amended: the stored expiration epoch is \<open>now + lifetimeMinutes * 60\<close> reduced
  modulo \<open>2 ^ 32\<close>, where \<open>now\<close> is the 32-bit clock value; it is the exact sum
  whenever that sum is below \<open>2 ^ 32\<close>. The field is written through the cast
  \<^verbatim>\<open>(uint32_t)expiration\<close>, so it does not hold the sum in unbounded arithmetic.
\<close>

theorem stored_expiration_modulo:
  "Generate X now m s = Some (rc, s') \<Longrightarrow>
     uint (expirationUnixTime s') = (uint (get_unix_time_now now) + uint m * 60) mod 2 ^ 32
     \<and> (uint (get_unix_time_now now) + uint m * 60 < 2 ^ 32 \<longrightarrow>
          uint (expirationUnixTime s') = uint (get_unix_time_now now) + uint m * 60)"
  by (simp add: Generate_expiration uint_epoch)

theorem stored_expiration_modulo_witness:
  "map_option (\<lambda>(rc, s'). (rc, uint (expirationUnixTime s')))
     (Generate reference_collaborators 1700000000 60 device1) = Some (0, 1700003600)"
proof -
  from device1_Generate[of 1700000000 60] obtain s'
    where run: "Generate reference_collaborators 1700000000 60 device1 = Some (0, s')"
    by blast
  have "uint (get_unix_time_now 1700000000) + uint (60 :: 32 word) * 60 < 2 ^ 32"
    by (simp add: get_unix_time_now_def)
  with stored_expiration_modulo[OF run]
  have "uint (expirationUnixTime s') = uint (get_unix_time_now 1700000000) + uint (60 :: 32 word) * 60"
    by blast
  then show ?thesis
    using run by (simp add: get_unix_time_now_def)
qed

text \<open>
  The claim as stated fails: at the clock value 1700000000 a lifetime of 71582789
  minutes stores 1700000044, and the exact sum is 5994967340.
\<close>

theorem stored_expiration_exact_counterexample:
  "map_option (\<lambda>(rc, s'). (rc, uint (expirationUnixTime s')))
     (Generate reference_collaborators 1700000000 71582789 device1) = Some (0, 1700000044)
   \<and> (1700000000 :: int) + 71582789 * 60 = 5994967340"
proof -
  from device1_Generate[of 1700000000 71582789] obtain s'
    where "Generate reference_collaborators 1700000000 71582789 device1 = Some (0, s')"
      and "expirationUnixTime s' = get_unix_time_now 1700000000 + 71582789 * 60"
    by blast
  then show ?thesis
    by (simp add: get_unix_time_now_def)
qed

section \<open>The boundary of expiry\<close>

text \<open>
  C2. Amended: \<open>IsExpired\<close> is true exactly when the 32-bit clock value is at least
  the stored expiration epoch. After a call of \<open>Generate\<close> at clock value \<open>now0\<close> with
  lifetime \<open>L\<close>, the token is expired at \<open>now0 + L * 60\<close>; at \<open>now0 + L * 60 - 1\<close> it is
  not expired, unless \<open>now0 + L * 60\<close> is a multiple of \<open>2 ^ 32\<close> (the stored epoch is
  then 0, and the token is expired at every clock value).
\<close>

theorem IsExpired_boundary:
  "(IsExpired t s \<longleftrightarrow> get_unix_time_now t \<ge> expirationUnixTime s)
   \<and> (Generate X now0 L s = Some (rc, s') \<longrightarrow>
        IsExpired (now0 + uint L * 60) s'
        \<and> ((now0 + uint L * 60) mod 2 ^ 32 \<noteq> 0 \<longrightarrow>
             \<not> IsExpired (now0 + uint L * 60 - 1) s'))"
  using boundary[of s' now0 L] by (auto simp: IsExpired_def dest: Generate_expiration)

theorem IsExpired_boundary_witness:
  "map_option (\<lambda>(rc, s'). (rc, IsExpired (1700000000 + 60 * 60) s',
                              IsExpired (1700000000 + 60 * 60 - 1) s'))
     (Generate reference_collaborators 1700000000 60 device1) = Some (0, True, False)"
proof -
  from device1_Generate[of 1700000000 60] obtain s'
    where run: "Generate reference_collaborators 1700000000 60 device1 = Some (0, s')"
    by blast
  have nz: "(1700000000 + uint (60 :: 32 word) * 60) mod 2 ^ 32 \<noteq> 0"
    by simp
  from IsExpired_boundary[where X = reference_collaborators and ?now0.0 = 1700000000
         and L = 60 and s = device1 and rc = 0 and s' = s'] run nz
  have "IsExpired (1700000000 + uint (60 :: 32 word) * 60) s'
        \<and> \<not> IsExpired (1700000000 + uint (60 :: 32 word) * 60 - 1) s'"
    by blast
  then show ?thesis
    using run by simp
qed

text \<open>
  The claim as stated fails where the sum wraps to 0: a token generated at clock value
  4294967236 with a lifetime of one minute is already expired one second before
  \<open>now0 + L * 60\<close>.
\<close>

theorem expired_before_boundary_counterexample:
  "map_option (\<lambda>(rc, s'). (rc, IsExpired (4294967236 + 1 * 60 - 1) s'))
     (Generate reference_collaborators 4294967236 1 device1) = Some (0, True)"
proof -
  from device1_Generate[of 4294967236 1] obtain s'
    where "Generate reference_collaborators 4294967236 1 device1 = Some (0, s')"
      and "expirationUnixTime s' = get_unix_time_now 4294967236 + 1 * 60"
    by blast
  then show ?thesis
    by (simp add: IsExpired_def get_unix_time_now_def)
qed

section \<open>A fresh token\<close>

text \<open>
  C4. Amended: after a successful call of \<open>Generate\<close> with a positive lifetime for
  which \<open>now + lifetimeMinutes * 60\<close> is below \<open>2 ^ 32\<close>, \<open>IsExpired\<close> at the same
  clock value is false; and \<open>Get\<close> returns a non-empty token view provided the password
  formatter of the SDK reports a positive length whenever it succeeds.
\<close>

theorem fresh_token_not_expired:
  "Generate X now L s = Some (0, s') \<Longrightarrow> 0 < L \<Longrightarrow>
   uint (get_unix_time_now now) + uint L * 60 < 2 ^ 32 \<Longrightarrow>
     \<not> IsExpired now s'
     \<and> ((\<forall>c e sig key_name capacity res written pwd_len.
           sas_get_password X c e sig key_name capacity = (res, written, pwd_len)
             \<longrightarrow> \<not> az_result_failed res \<longrightarrow> 0 < pwd_len)
         \<longrightarrow> 0 < az_span_size (Get s'))"
proof (intro conjI impI)
  assume run: "Generate X now L s = Some (0, s')" and "0 < L"
    and "uint (get_unix_time_now now) + uint L * 60 < 2 ^ 32"
  then have "get_unix_time_now now < expirationUnixTime s'"
    by (simp add: Generate_expiration fresh_epoch)
  then show "\<not> IsExpired now s'"
    by (simp add: IsExpired_def not_le)
  assume pos: "\<forall>c e sig key_name capacity res written pwd_len.
           sas_get_password X c e sig key_name capacity = (res, written, pwd_len)
             \<longrightarrow> \<not> az_result_failed res \<longrightarrow> 0 < pwd_len"
  from Generate_success_token[OF run] pos show "0 < az_span_size (Get s')"
    by (fastforce simp: Get_def)
qed

theorem fresh_token_not_expired_witness:
  "map_option (\<lambda>(rc, s'). (rc, IsExpired 1700000000 s', 0 < az_span_size (Get s')))
     (Generate reference_collaborators 1700000000 60 device1) = Some (0, False, True)"
proof -
  from device1_Generate[of 1700000000 60] obtain s'
    where run: "Generate reference_collaborators 1700000000 60 device1 = Some (0, s')"
    by blast
  have "uint (get_unix_time_now 1700000000) + uint (60 :: 32 word) * 60 < 2 ^ 32"
    by (simp add: get_unix_time_now_def)
  from fresh_token_not_expired[OF run _ this]
  have "\<not> IsExpired 1700000000 s' \<and> 0 < az_span_size (Get s')"
    by (auto simp: reference_simps dest: format_token_positive)
  then show ?thesis
    using run by simp
qed

text \<open>
  The claim as stated fails for a positive lifetime whose seconds are a multiple of
  \<open>2 ^ 32\<close>: with 1073741824 minutes the stored epoch is the current clock value, and the
  token is expired at once.
\<close>

theorem fresh_token_not_expired_counterexample:
  "map_option (\<lambda>(rc, s'). (rc, IsExpired 1700000000 s'))
     (Generate reference_collaborators 1700000000 1073741824 device1) = Some (0, True)"
proof -
  from device1_Generate[of 1700000000 1073741824] obtain s'
    where "Generate reference_collaborators 1700000000 1073741824 device1 = Some (0, s')"
      and "expirationUnixTime s' = get_unix_time_now 1700000000 + 1073741824 * 60"
    by blast
  then show ?thesis
    by (simp add: IsExpired_def get_unix_time_now_def)
qed

section \<open>Successive calls\<close>

text \<open>
  C6. Amended: across successive calls of \<open>Generate\<close> on one generator, if at every
  call the clock value is not negative and \<open>now + lifetimeMinutes * 60\<close> is below
  \<open>2 ^ 32\<close>, and this sum does not decrease from one call to the next (as when the clock
  does not go back and no lifetime is shorter than the one before), then the expiration
  epochs stored by the successful calls are non-decreasing. A non-decreasing clock and
  positive lifetimes alone do not give this.
\<close>

theorem expiration_monotone:
  assumes "Generate_calls X calls s = Some results"
    and "\<forall>(now, m) \<in> set calls. 0 \<le> now \<and> now + uint m * 60 < 2 ^ 32"
    and "sorted (map (\<lambda>(now, m). now + uint m * 60) calls)"
  shows "sorted (map (\<lambda>(rc, s'). expirationUnixTime s') (filter (\<lambda>(rc, s'). rc = 0) results))"
proof -
  have "sorted_wrt (\<lambda>c d. (case c of (now, m) \<Rightarrow> now + uint m * 60)
                            \<le> (case d of (now, m) \<Rightarrow> now + uint m * 60)) calls"
    using assms(3) by (simp add: sorted_map)
  then have "sorted_wrt (\<lambda>c d. (case c of (now, m) \<Rightarrow> get_unix_time_now now + m * 60)
                            \<le> (case d of (now, m) \<Rightarrow> get_unix_time_now now + m * 60)) calls"
  proof (rule sorted_wrt_mono_rel[rotated])
    fix c d
    assume "c \<in> set calls" and "d \<in> set calls"
    assume le: "(case c of (now, m) \<Rightarrow> now + uint m * 60)
                 \<le> (case d of (now, m) \<Rightarrow> now + uint m * 60)"
    obtain t1 m1 t2 m2 where cd: "c = (t1, m1)" "d = (t2, m2)"
      by (cases c, cases d)
    from assms(2) \<open>c \<in> set calls\<close> \<open>d \<in> set calls\<close>
    have "0 \<le> t1 \<and> t1 + uint m1 * 60 < 2 ^ 32" and "0 \<le> t2 \<and> t2 + uint m2 * 60 < 2 ^ 32"
      by (auto simp: cd)
    then have "uint (get_unix_time_now t1 + m1 * 60) = t1 + uint m1 * 60"
      and "uint (get_unix_time_now t2 + m2 * 60) = t2 + uint m2 * 60"
      by (simp_all add: epoch_no_wrap)
    with le show "(case c of (now, m) \<Rightarrow> get_unix_time_now now + m * 60)
                 \<le> (case d of (now, m) \<Rightarrow> get_unix_time_now now + m * 60)"
      by (simp add: cd word_le_def)
  qed
  then have "sorted (map (\<lambda>(now, m). get_unix_time_now now + m * 60) calls)"
    by (simp add: sorted_map)
  then have "sorted (map (\<lambda>(rc, s'). expirationUnixTime s') results)"
    by (simp only: Generate_calls_expirations[OF assms(1)])
  then show ?thesis
    by (rule sorted_filter)
qed

theorem expiration_monotone_witness:
  "map_option (map (\<lambda>(rc, s'). (rc, expirationUnixTime s')))
     (Generate_calls reference_collaborators [(1700000000, 60), (1700000100, 60)] device1)
   = Some [(0, 1700003600), (0, 1700003700)]"
proof -
  from device1_two_calls[of 1700000000 60 1700000100 60] obtain s1 s2
    where run: "Generate_calls reference_collaborators [(1700000000, 60), (1700000100, 60)] device1
              = Some [(0, s1), (0, s2)]"
      and e1: "expirationUnixTime s1 = get_unix_time_now 1700000000 + 60 * 60"
      and e2: "expirationUnixTime s2 = get_unix_time_now 1700000100 + 60 * 60"
    by blast
  have "sorted (map (\<lambda>(rc, s'). expirationUnixTime s')
          (filter (\<lambda>(rc, s'). rc = 0) [(0 :: int, s1), (0, s2)]))"
    by (rule expiration_monotone[OF run]) simp_all
  then have "expirationUnixTime s1 \<le> expirationUnixTime s2"
    by simp
  then show ?thesis
    using run e1 e2 by (simp add: get_unix_time_now_def)
qed

text \<open>
  The claim as stated fails: both calls succeed, both lifetimes are positive and the
  clock advances, and the second call stores an earlier epoch, as its lifetime is
  shorter.
\<close>

theorem expiration_monotone_counterexample:
  "map_option (map (\<lambda>(rc, s'). (rc, expirationUnixTime s')))
     (Generate_calls reference_collaborators [(1700000000, 60), (1700000001, 1)] device1)
   = Some [(0, 1700003600), (0, 1700000061)]"
proof -
  from device1_two_calls[of 1700000000 60 1700000001 1] obtain s1 s2
    where "Generate_calls reference_collaborators [(1700000000, 60), (1700000001, 1)] device1
              = Some [(0, s1), (0, s2)]"
      and "expirationUnixTime s1 = get_unix_time_now 1700000000 + 60 * 60"
      and "expirationUnixTime s2 = get_unix_time_now 1700000001 + 1 * 60"
    by blast
  then show ?thesis
    by (simp add: get_unix_time_now_def)
qed

section \<open>What a failed call leaves behind\<close>

text \<open>
  C1. Amended: a call of \<open>Generate\<close> that returns a nonzero code leaves the token
  view returned by \<open>Get\<close> as it was, and replaces the stored expiration epoch by the
  epoch of the failed call. When the call fails in canonicalization or in decoding the
  key, memory is unchanged as well (so are the bytes under the view).
\<close>

theorem failed_Generate_keeps_token_view:
  "Generate X now m s = Some (rc, s') \<Longrightarrow> rc \<noteq> 0 \<Longrightarrow>
     Get s' = Get s
     \<and> expirationUnixTime s' = get_unix_time_now now + m * 60
     \<and> (Generate_run X now m s = Some (Failed Canonicalization, s')
          \<or> Generate_run X now m s = Some (Failed KeyDecode, s') \<longrightarrow> memory s' = memory s)"
proof -
  assume run: "Generate X now m s = Some (rc, s')" and "rc \<noteq> 0"
  then obtain st where "Generate_run X now m s = Some (Failed st, s')"
    using return_code_cases by (fastforce simp: Generate_Some)
  then have "Get s' = Get s"
    by (simp add: Get_def Generate_run_failed_token)
  with run show ?thesis
    by (auto simp: Generate_expiration dest: Generate_run_early_memory)
qed

theorem failed_Generate_keeps_token_view_witness:
  "map_option (\<lambda>(rc, s1). (rc, Get s1,
       map_option (\<lambda>(rc', s2). (rc', Get s2))
         (Generate reference_collaborators 1700000100 60 (corrupt_key s1))))
     (Generate reference_collaborators 1700000000 60 device1)
   = Some (0, \<lparr>az_span_ptr = 300, az_span_size = 121\<rparr>,
           Some (1, \<lparr>az_span_ptr = 300, az_span_size = 121\<rparr>))"
proof -
  from device1_Generate[of 1700000000 60] obtain s1
    where run1: "Generate reference_collaborators 1700000000 60 device1 = Some (0, s1)"
      and s1: "provisioned s1"
      and tok: "sasToken s1 = \<lparr>az_span_ptr = 300,
                  az_span_size = 111 + length (decimal (expiration64 1700000000 60))\<rparr>"
    by blast
  have "decimal (expiration64 1700000000 60) = ascii ''1700003600''"
    by (simp add: get_unix_time_now_def decimal_def decimal_places_def ascii_def)
  then have tok': "Get s1 = \<lparr>az_span_ptr = 300, az_span_size = 121\<rparr>"
    using tok by (simp add: Get_def ascii_def)
  let ?s2 = "(corrupt_key s1)\<lparr>expirationUnixTime := get_unix_time_now 1700000100 + 60 * 60\<rparr>"
  have run2: "Generate reference_collaborators 1700000100 60 (corrupt_key s1) = Some (1, ?s2)"
    by (rule corrupt_key_Generate[OF s1])
  from failed_Generate_keeps_token_view[OF run2]
  have "Get ?s2 = Get (corrupt_key s1)"
    by simp
  also have "\<dots> = Get s1"
    by (simp add: Get_def corrupt_key_def)
  finally show ?thesis
    using run1 run2 tok' by simp
qed

text \<open>
  The claim as stated fails for the expiration: a first call succeeds and stores
  1700003600; the caller then overwrites the key; the next call, 100 seconds later,
  returns 1 and has stored 1700003700.
\<close>

theorem failed_Generate_keeps_expiration_counterexample:
  "map_option (\<lambda>(rc, s1). (rc, expirationUnixTime s1,
       map_option (\<lambda>(rc', s2). (rc', expirationUnixTime s2))
         (Generate reference_collaborators 1700000100 60 (corrupt_key s1))))
     (Generate reference_collaborators 1700000000 60 device1)
   = Some (0, 1700003600, Some (1, 1700003700))"
proof -
  from device1_Generate[of 1700000000 60] obtain s1
    where run1: "Generate reference_collaborators 1700000000 60 device1 = Some (0, s1)"
      and s1: "provisioned s1"
      and e1: "expirationUnixTime s1 = get_unix_time_now 1700000000 + 60 * 60"
    by blast
  show ?thesis
    using run1 e1 by (simp add: corrupt_key_Generate[OF s1] get_unix_time_now_def)
qed

text \<open>
  C10. The token view returned by \<open>Get\<close> is assigned only on the path on which all
  four fallible stages have succeeded: canonicalization has not failed, the signature
  steps have produced a signature (so neither key decoding nor signature encoding has
  returned), and the formatter has not failed; the view is then the prefix of the token
  buffer of the length the formatter reports. Each of the four error returns leaves the
  view as it was before the call, although the failed formatting stage may have written to
  the token buffer.
\<close>

theorem token_view_assigned_on_success_only:
  "Generate_run X now m s = Some (e, s') \<Longrightarrow>
     (case e of
        Failed st \<Rightarrow> Get s' = Get s
      | Succeeded \<Rightarrow>
          (\<exists>res1 to_sign sig s3 res4 written pwd_len.
             sas_get_signature X (client s) (expiration64 now m) 256 = (res1, to_sign)
             \<and> \<not> az_result_failed res1
             \<and> Generate_signature X to_sign
                  (s\<lparr>expirationUnixTime := ucast (expiration64 now m)\<rparr>) = Some (Inr sig, s3)
             \<and> sas_get_password X (client s) (expiration64 now m) sig []
                  (az_span_size (sasTokenBuffer s)) = (res4, written, pwd_len)
             \<and> \<not> az_result_failed res4
             \<and> pwd_len \<le> az_span_size (sasTokenBuffer s)
             \<and> Get s' = \<lparr>az_span_ptr = az_span_ptr (sasTokenBuffer s),
                           az_span_size = pwd_len\<rparr>))"
proof (cases e)
  case (Failed st)
  assume "Generate_run X now m s = Some (e, s')"
  with Failed show ?thesis
    by (simp add: Get_def Generate_run_failed_token)
next
  case Succeeded
  assume "Generate_run X now m s = Some (e, s')"
  with Succeeded show ?thesis
    using Generate_run_Succeeded[of X now m s s'] by (simp add: Get_def)
qed

text \<open>
  With a token buffer of 50 bytes the formatting stage fails after it has written
  the beginning of the password: the view is still empty, and the first byte of the
  buffer has changed from 0 to 83.
\<close>

theorem token_view_assigned_on_success_only_witness:
  "map_option (\<lambda>(e, s'). (e, Get s', memory s' 300))
     (Generate_run reference_collaborators 1700000000 60 (small_token_buffer device1))
     = Some (Failed Formatting, AZ_SPAN_EMPTY, 83)
   \<and> Get (small_token_buffer device1) = AZ_SPAN_EMPTY
   \<and> memory (small_token_buffer device1) 300 = 0"
proof -
  from small_token_buffer_run[OF provisioned_device1 device1_fields(4), of 1700000000 60]
  obtain s' where run: "Generate_run reference_collaborators 1700000000 60 (small_token_buffer device1)
                 = Some (Failed Formatting, s')"
    and mem: "memory s' 300 = 83"
    by blast
  from token_view_assigned_on_success_only[OF run]
  have "Get s' = Get (small_token_buffer device1)"
    by simp
  moreover have "Get (small_token_buffer device1) = AZ_SPAN_EMPTY"
    by (simp add: Get_def small_token_buffer_def device1_fields)
  moreover have "memory (small_token_buffer device1) 300 = 0"
    by (simp add: small_token_buffer_def device1_fields store_def length_device_key_text)
  ultimately show ?thesis
    using run mem by simp
qed

section \<open>Result codes\<close>




section \<open>Determinism of the signature\<close>

text \<open>
  C9. For a fixed key text and a fixed string-to-sign (which the SDK builds from the
  resource identifier and the expiration epoch), two computations of the signature steps
  that both produce a Base64 signature produce the same bytes, whatever the generators'
  buffers, their earlier contents and the rest of their state are: the signature is the
  encoding of the HMAC of the string-to-sign under the decoded key. The HMAC is assumed to
  return 32 bytes, as HMAC-SHA256 does.
\<close>

theorem signature_deterministic:
  assumes "\<forall>key msg. length (hmac_sha256 X key msg) = 32"
    and "load (memory s) (deviceKey s) = load (memory t) (deviceKey t)"
    and "Generate_signature X to_sign s = Some (Inr sig_s, s')"
    and "Generate_signature X to_sign t = Some (Inr sig_t, t')"
  shows "sig_s = sig_t
         \<and> (\<exists>key. base64_decode_bytes X (load (memory s) (deviceKey s)) = Some key
                  \<and> sig_s = base64_encode_bytes X (hmac_sha256 X key to_sign))"
proof -
  from Generate_signature_Inr[OF assms(3)] assms(1) obtain key
    where ks: "base64_decode_bytes X (load (memory s) (deviceKey s)) = Some key"
      and ss: "sig_s = base64_encode_bytes X (hmac_sha256 X key to_sign)"
    by blast
  from Generate_signature_Inr[OF assms(4)] assms(1) obtain key'
    where kt: "base64_decode_bytes X (load (memory t) (deviceKey t)) = Some key'"
      and st: "sig_t = base64_encode_bytes X (hmac_sha256 X key' to_sign)"
    by blast
  from ks kt assms(2) have "key' = key"
    by simp
  with ks ss st show ?thesis
    by simp
qed

theorem signature_deterministic_witness:
  "map_option fst (Generate_signature reference_collaborators [1, 2, 3] device1)
     = map_option fst (Generate_signature reference_collaborators [1, 2, 3] device2)
   \<and> map_option fst (Generate_signature reference_collaborators [1, 2, 3] device1)
     = Some (Inr (rfc4648_encode (keyed_digest
             [0, 1, 2, 3, 4, 5, 6, 7, 8, 9, 10, 11, 12, 13, 14, 15] [1, 2, 3])))
   \<and> memory device1 200 \<noteq> memory device2 600"
proof -
  let ?sig = "rfc4648_encode (keyed_digest
             [0, 1, 2, 3, 4, 5, 6, 7, 8, 9, 10, 11, 12, 13, 14, 15] [1, 2, 3])"
  have k1: "load (memory device1) (deviceKey device1) = device_key_text"
    by (simp add: device1_fields load_store_same length_device_key_text)
  have k2: "load (memory device2) (deviceKey device2) = device_key_text"
    by (simp add: device2_def AzIoTSasToken_new_def load_store_same length_device_key_text)
  have "map_option fst (Generate_signature reference_collaborators [1, 2, 3] device1) = Some (Inr ?sig)"
    by (rule device_signature[OF k1]) (simp add: device1_fields)
  then obtain s' where r1: "Generate_signature reference_collaborators [1, 2, 3] device1
                              = Some (Inr ?sig, s')"
    by auto
  have "map_option fst (Generate_signature reference_collaborators [1, 2, 3] device2) = Some (Inr ?sig)"
    by (rule device_signature[OF k2]) (simp add: device2_def AzIoTSasToken_new_def)
  then obtain t' where r2: "Generate_signature reference_collaborators [1, 2, 3] device2
                              = Some (Inr ?sig, t')"
    by auto
  have h: "\<forall>key msg. length (hmac_sha256 reference_collaborators key msg) = 32"
    by (simp add: reference_simps length_keyed_digest)
  from signature_deterministic[OF h _ r1 r2] k1 k2
  have "\<exists>key. base64_decode_bytes reference_collaborators (load (memory device1) (deviceKey device1))
                 = Some key
              \<and> ?sig = base64_encode_bytes reference_collaborators
                         (hmac_sha256 reference_collaborators key [1, 2, 3])"
    by simp
  moreover have "memory device1 200 \<noteq> memory device2 600"
    by (simp add: device1_fields device2_def AzIoTSasToken_new_def store_def
          length_device_key_text)
  ultimately show ?thesis
    using r1 r2 by simp
qed

end
